theory Spec2Isabelle
  imports Complex_Main "HOL-Library.Sublist"
begin

section \<open>Token-bucket rate limiter (manager.py)\<close>

text \<open>
  \<^verbatim>\<open>ToolRateLimiter\<close> keeps three fields. \<^verbatim>\<open>calls_per_minute\<close> is a Python int;
  \<^verbatim>\<open>allowance\<close> and \<^verbatim>\<open>last_check\<close> are Python floats, modelled here as exact reals
  (every value on the burst path is a whole number, which a double represents exactly
  below \<open>2 ^ 53\<close>). The lock only serialises callers and carries no data. The clock
  \<^verbatim>\<open>time.time()\<close> is an input of the model: the constructor and every call take the
  reading they would obtain.
\<close>

record ToolRateLimiter =
  calls_per_minute :: int
  allowance :: real
  last_check :: real

definition new_limiter :: "int \<Rightarrow> real \<Rightarrow> ToolRateLimiter" where
  "new_limiter cpm now =
     \<lparr>calls_per_minute = cpm, allowance = real_of_int cpm, last_check = now\<rparr>"

text \<open>
  \<^verbatim>\<open>is_allowed\<close>, statement by statement: read the clock, store it, refill, cap,
  then either deny (state keeps the refill) or consume one token.
\<close>

definition is_allowed :: "real \<Rightarrow> ToolRateLimiter \<Rightarrow> bool \<times> ToolRateLimiter" where
  "is_allowed current l =
     (let time_passed = current - last_check l;
          l1 = l\<lparr>last_check := current\<rparr>;
          refill_rate = real_of_int (calls_per_minute l1) / 60;
          l2 = l1\<lparr>allowance := allowance l1 + time_passed * refill_rate\<rparr>;
          l3 = (if allowance l2 > real_of_int (calls_per_minute l2)
                then l2\<lparr>allowance := real_of_int (calls_per_minute l2)\<rparr>
                else l2)
      in if allowance l3 < 1 then (False, l3)
         else (True, l3\<lparr>allowance := allowance l3 - 1\<rparr>))"

text \<open>
  A sequence of calls, given by the time elapsed before each one. The function returns
  the answer of every call together with the limiter as it stands after that call.
\<close>

fun calls_after :: "real list \<Rightarrow> ToolRateLimiter \<Rightarrow> (bool \<times> ToolRateLimiter) list" where
  "calls_after [] l = []"
| "calls_after (d # ds) l =
     (let r = is_allowed (last_check l + d) l in r # calls_after ds (snd r))"

section \<open>Cost tracker (cost_tracker.py)\<close>

record StepCost =
  step_number :: int
  model :: string
  input_tokens :: int
  output_tokens :: int
  cost_usd :: real
  is_tool_call :: bool

record QueryCost =
  query :: string
  steps :: "StepCost list"
  total_cost_usd :: real
  total_input_tokens :: int
  total_output_tokens :: int

definition new_QueryCost :: "string \<Rightarrow> QueryCost" where
  "new_QueryCost q =
     \<lparr>query = q, steps = [], total_cost_usd = 0, total_input_tokens = 0,
      total_output_tokens = 0\<rparr>"

definition add_step :: "StepCost \<Rightarrow> QueryCost \<Rightarrow> QueryCost" where
  "add_step s qc =
     qc\<lparr>steps := steps qc @ [s],
        total_cost_usd := total_cost_usd qc + cost_usd s,
        total_input_tokens := total_input_tokens qc + input_tokens s,
        total_output_tokens := total_output_tokens qc + output_tokens s\<rparr>"

record CostTracker =
  queries :: "QueryCost list"
  current_query :: "QueryCost option"

definition new_CostTracker :: CostTracker where
  "new_CostTracker = \<lparr>queries = [], current_query = None\<rparr>"

definition start_query :: "string \<Rightarrow> CostTracker \<Rightarrow> CostTracker" where
  "start_query q t = t\<lparr>current_query := Some (new_QueryCost q)\<rparr>"

text \<open>
  \<^verbatim>\<open>log_completion\<close> reads the usage of a response: \<^verbatim>\<open>None\<close> when the response has
  no usage, otherwise prompt and completion token counts; the model name is the
  response's. The cost is the fixed rate of the source, \<open>0.00001\<close> per token.
\<close>

record usage_info =
  prompt_tokens :: int
  completion_tokens :: int

definition log_completion ::
  "int \<Rightarrow> usage_info option \<Rightarrow> string \<Rightarrow> bool \<Rightarrow> CostTracker \<Rightarrow> CostTracker" where
  "log_completion n usage mdl tc t =
     (case current_query t of
        None \<Rightarrow> t
      | Some qc \<Rightarrow>
          (let input = (case usage of None \<Rightarrow> 0 | Some u \<Rightarrow> prompt_tokens u);
               output = (case usage of None \<Rightarrow> 0 | Some u \<Rightarrow> completion_tokens u);
               cost = real_of_int (input + output) * (1 / 100000);
               sc = \<lparr>step_number = n, model = mdl, input_tokens = input,
                     output_tokens = output, cost_usd = cost, is_tool_call = tc\<rparr>
           in t\<lparr>current_query := Some (add_step sc qc)\<rparr>))"

definition end_query :: "CostTracker \<Rightarrow> CostTracker" where
  "end_query t =
     (case current_query t of
        None \<Rightarrow> t
      | Some qc \<Rightarrow> t\<lparr>queries := queries t @ [qc], current_query := None\<rparr>)"

text \<open>The state invariant of the bucket: the token count lies between 0 and the capacity.\<close>

definition within_capacity :: "ToolRateLimiter \<Rightarrow> bool" where
  "within_capacity l \<longleftrightarrow>
     0 \<le> allowance l \<and> allowance l \<le> real_of_int (calls_per_minute l)"

section \<open>Tool registry (registry.py)\<close>

text \<open>
  Exceptions, as values. The code tells three kinds apart: pydantic's
  \<^verbatim>\<open>ValidationError\<close>, which derives from \<^verbatim>\<open>Exception\<close>; every other exception
  derived from \<^verbatim>\<open>Exception\<close>; and the exceptions that derive from
  \<^verbatim>\<open>BaseException\<close> only (\<^verbatim>\<open>SystemExit\<close>, \<^verbatim>\<open>KeyboardInterrupt\<close>, \<^verbatim>\<open>GeneratorExit\<close>,
  \<^verbatim>\<open>asyncio.CancelledError\<close>), which a clause \<^verbatim>\<open>except Exception\<close> does not catch.
  Each carries the text that \<^verbatim>\<open>str(e)\<close> gives. \<open>is_Exception e\<close> is
  \<^verbatim>\<open>isinstance(e, Exception)\<close>.
\<close>

datatype py_exception =
  ValidationError string
  | OtherException string
  | BaseExceptionOnly string

fun exn_text :: "py_exception \<Rightarrow> string" where
  "exn_text (ValidationError m) = m"
| "exn_text (OtherException m) = m"
| "exn_text (BaseExceptionOnly m) = m"

fun is_Exception :: "py_exception \<Rightarrow> bool" where
  "is_Exception (ValidationError m) = True"
| "is_Exception (OtherException m) = True"
| "is_Exception (BaseExceptionOnly m) = False"

text \<open>
  Modelled from the spec: the class \<^verbatim>\<open>BaseTool\<close> (module \<^verbatim>\<open>base\<close>) is imported by
  the registry but is not among the sources. The spec gives a tool a name, the list of
  permission scopes it requires and an \<^verbatim>\<open>execute\<close> operation; these are the three
  attributes the registry reads. A call of \<^verbatim>\<open>execute\<close> either returns a value
  (\<open>Inr\<close>) or raises an exception (\<open>Inl\<close>). Tool bodies are taken as functions of
  their arguments.
\<close>

record ('a, 'v) BaseTool =
  tool_name :: string
  tool_permissions :: "string list"
  tool_execute :: "'a \<Rightarrow> py_exception + 'v"

text \<open>The dict every registry call returns: keys \<^verbatim>\<open>success\<close>, \<^verbatim>\<open>result\<close>, \<^verbatim>\<open>error\<close>.\<close>

record 'v tool_result =
  success :: bool
  result :: "'v option"
  error :: "string option"

record ('a, 'v) ToolRegistry =
  tools :: "string \<rightharpoonup> ('a, 'v) BaseTool"
  limiters :: "string \<rightharpoonup> ToolRateLimiter"

definition new_ToolRegistry :: "('a, 'v) ToolRegistry" where
  "new_ToolRegistry = \<lparr>tools = Map.empty, limiters = Map.empty\<rparr>"

definition register ::
  "real \<Rightarrow> ('a, 'v) BaseTool \<Rightarrow> int \<Rightarrow> ('a, 'v) ToolRegistry \<Rightarrow> ('a, 'v) ToolRegistry" where
  "register now tool cpm reg =
     reg\<lparr>tools := (tools reg)(tool_name tool \<mapsto> tool),
         limiters := (limiters reg)(tool_name tool \<mapsto> new_limiter cpm now)\<rparr>"

definition get_tool :: "('a, 'v) ToolRegistry \<Rightarrow> string \<Rightarrow> ('a, 'v) BaseTool option" where
  "get_tool reg n = tools reg n"

definition quote :: string where
  "quote = [CHR 0x27]"

definition not_found_error :: "string \<Rightarrow> 'v tool_result" where
  "not_found_error n =
     \<lparr>success = False, result = None,
      error = Some (''Tool '' @ quote @ n @ quote @ '' not found.'')\<rparr>"

definition rate_limit_error :: "string \<Rightarrow> 'v tool_result" where
  "rate_limit_error n =
     \<lparr>success = False, result = None,
      error = Some (''Rate limit exceeded for tool '' @ quote @ n @ quote @ ''.'')\<rparr>"

text \<open>
  The \<^verbatim>\<open>try\<close> block of \<^verbatim>\<open>execute\<close>. The tool's value becomes a success dict
  (\<open>Inr\<close>). An exception that \<^verbatim>\<open>except Exception\<close> catches becomes a failure dict
  that carries its text; any other exception leaves \<^verbatim>\<open>execute\<close> (\<open>Inl\<close>).
\<close>

definition run_tool :: "('a, 'v) BaseTool \<Rightarrow> 'a \<Rightarrow> py_exception + 'v tool_result" where
  "run_tool tool arguments =
     (case tool_execute tool arguments of
        Inr v \<Rightarrow> Inr \<lparr>success = True, result = Some v, error = None\<rparr>
      | Inl e \<Rightarrow>
          if is_Exception e
          then Inr \<lparr>success = False, result = None, error = Some (exn_text e)\<rparr>
          else Inl e)"

text \<open>
  \<^verbatim>\<open>execute\<close> returns its outcome, the dict or the exception that propagates, and the
  registry as the call leaves it: the only state it touches is the limiter of the
  named tool, and only once the tool has been found. \<open>now\<close> is the clock reading
  \<^verbatim>\<open>is_allowed\<close> would take.
\<close>

definition execute ::
  "real \<Rightarrow> ('a, 'v) ToolRegistry \<Rightarrow> string \<Rightarrow> 'a \<Rightarrow>
   (py_exception + 'v tool_result) \<times> ('a, 'v) ToolRegistry" where
  "execute now reg n arguments =
     (case get_tool reg n of
        None \<Rightarrow> (Inr (not_found_error n), reg)
      | Some tool \<Rightarrow>
          (case limiters reg n of
             None \<Rightarrow> (run_tool tool arguments, reg)
           | Some limiter \<Rightarrow>
               (let (allowed, limiter') = is_allowed now limiter;
                    reg' = reg\<lparr>limiters := (limiters reg)(n \<mapsto> limiter')\<rparr>
                in if \<not> allowed then (Inr (rate_limit_error n), reg')
                   else (run_tool tool arguments, reg'))))"

text \<open>
  Python's \<^verbatim>\<open>repr\<close> of a string and of a list of strings, after CPython's
  \<^verbatim>\<open>unicode_repr\<close> and \<^verbatim>\<open>list_repr\<close>, for strings over the code points 0 to 255
  (the characters of the type \<^typ>\<open>char\<close>). The string is wrapped in single quotes,
  or in double quotes when it contains a single quote and no double quote; the
  wrapping quote and the backslash are escaped with a backslash; tab, newline and
  carriage return become a backslash followed by \<^verbatim>\<open>t\<close>, \<^verbatim>\<open>n\<close>, \<^verbatim>\<open>r\<close>; every other
  character that is not printable becomes a backslash, \<^verbatim>\<open>x\<close> and two hexadecimal
  digits. Below 256 the printable characters are 32 to 126 and 161 to 255 except 173.
\<close>

fun join_with :: "string \<Rightarrow> string list \<Rightarrow> string" where
  "join_with sep [] = []"
| "join_with sep [x] = x"
| "join_with sep (x # y # ys) = x @ sep @ join_with sep (y # ys)"

definition printable :: "char \<Rightarrow> bool" where
  "printable c \<longleftrightarrow>
     (let n = (of_char c :: nat) in (32 \<le> n \<and> n < 127) \<or> (161 \<le> n \<and> n \<noteq> 173))"

definition hex_digit :: "nat \<Rightarrow> char" where
  "hex_digit d = ''0123456789abcdef'' ! d"

definition repr_char :: "char \<Rightarrow> char \<Rightarrow> string" where
  "repr_char q c =
     (if c = q \<or> c = CHR 0x5C then [CHR 0x5C, c]
      else if c = CHR 0x09 then [CHR 0x5C, CHR ''t'']
      else if c = CHR 0x0A then [CHR 0x5C, CHR ''n'']
      else if c = CHR 0x0D then [CHR 0x5C, CHR ''r'']
      else if \<not> printable c
           then [CHR 0x5C, CHR ''x'', hex_digit ((of_char c :: nat) div 16),
                 hex_digit ((of_char c :: nat) mod 16)]
      else [c])"

definition repr_str :: "string \<Rightarrow> string" where
  "repr_str s =
     (let q = (if CHR 0x27 \<in> set s \<and> CHR 0x22 \<notin> set s then CHR 0x22 else CHR 0x27)
      in q # concat (map (repr_char q) s) @ [q])"

definition repr_list :: "string list \<Rightarrow> string" where
  "repr_list xs = ''['' @ join_with '', '' (map repr_str xs) @ '']''"

text \<open>
  A plain string: printable characters only, none of them a single quote or a
  backslash. \<^verbatim>\<open>repr\<close> of a plain string is the string between single quotes.
\<close>

definition plain :: "string \<Rightarrow> bool" where
  "plain s \<longleftrightarrow> list_all (\<lambda>c. printable c \<and> c \<noteq> CHR 0x27 \<and> c \<noteq> CHR 0x5C) s"

definition access_denied_error :: "string list \<Rightarrow> 'v tool_result" where
  "access_denied_error missing =
     \<lparr>success = False, result = None,
      error = Some (''Access Denied. Missing permissions: '' @ repr_list missing)\<rparr>"

definition execute_secure ::
  "real \<Rightarrow> ('a, 'v) ToolRegistry \<Rightarrow> string \<Rightarrow> 'a \<Rightarrow> string list \<Rightarrow>
   (py_exception + 'v tool_result) \<times> ('a, 'v) ToolRegistry" where
  "execute_secure now reg n arguments user_permissions =
     (case get_tool reg n of
        None \<Rightarrow> (Inr (not_found_error n), reg)
      | Some tool \<Rightarrow>
          (let missing = filter (\<lambda>p. p \<notin> set user_permissions) (tool_permissions tool)
           in if missing \<noteq> [] then (Inr (access_denied_error missing), reg)
              else execute now reg n arguments))"

text \<open>
  Two readings of a registry call used in the statements below: whether the limiter of
  a tool (if it has one) refuses a call made at time \<open>now\<close>, and whether a result
  dict is coherent (a success carries a value and no error, a failure an error and no
  value).
\<close>

definition limiter_denies :: "real \<Rightarrow> ('a, 'v) ToolRegistry \<Rightarrow> string \<Rightarrow> bool" where
  "limiter_denies now reg n =
     (case limiters reg n of None \<Rightarrow> False | Some l \<Rightarrow> \<not> fst (is_allowed now l))"

definition consistent_result :: "'v tool_result \<Rightarrow> bool" where
  "consistent_result r \<longleftrightarrow>
     (if success r then result r \<noteq> None \<and> error r = None
      else result r = None \<and> error r \<noteq> None)"

text \<open>
  A registry for concrete runs, with two tools, each registered with one call per
  minute at time 0. The first is named as \<^verbatim>\<open>ListFilesTool\<close> is and requires the scope
  \<^verbatim>\<open>filesystem:read\<close>; its body knows a single directory and raises for any other
  path. The second ends the process: its body raises \<^verbatim>\<open>SystemExit\<close>.
\<close>

definition list_files_tool :: "(string, string list) BaseTool" where
  "list_files_tool =
     \<lparr>tool_name = ''list_files'', tool_permissions = [''filesystem:read''],
      tool_execute =
        (\<lambda>path. if path = ''.'' then Inr [''a.txt'']
                else Inl (OtherException ''No such directory''))\<rparr>"

definition shutdown_tool :: "(string, string list) BaseTool" where
  "shutdown_tool =
     \<lparr>tool_name = ''shutdown'', tool_permissions = [],
      tool_execute = (\<lambda>path. Inl (BaseExceptionOnly ''shutting down''))\<rparr>"

definition example_registry :: "(string, string list) ToolRegistry" where
  "example_registry = register 0 shutdown_tool 1 (register 0 list_files_tool 1 new_ToolRegistry)"

section \<open>Path sanitizer (security.py)\<close>

text \<open>
  \<^verbatim>\<open>validate_safe_path\<close> is built from four operations of Python's standard library,
  in their POSIX form: \<^verbatim>\<open>str.startswith\<close>, \<^verbatim>\<open>os.path.join\<close>, \<^verbatim>\<open>os.path.normpath\<close> and
  \<^verbatim>\<open>os.path.abspath\<close>. They are written out here after the library's own code. The
  working directory \<^verbatim>\<open>os.getcwd()\<close> is an input, \<open>cwd\<close>. None of them looks at the
  file system, so symbolic links are not followed.
\<close>

definition startswith :: "string \<Rightarrow> string \<Rightarrow> bool" where
  "startswith s p = prefix p s"

definition endswith :: "string \<Rightarrow> string \<Rightarrow> bool" where
  "endswith s p = suffix p s"

text \<open>\<^verbatim>\<open>s.split(c)\<close>: the pieces of \<open>s\<close> between occurrences of \<open>c\<close>, empty pieces kept.\<close>

fun split_on :: "char \<Rightarrow> string \<Rightarrow> string list" where
  "split_on c [] = [[]]"
| "split_on c (x # xs) =
     (if x = c then [] # split_on c xs
      else (case split_on c xs of
              w # ws \<Rightarrow> (x # w) # ws
            | [] \<Rightarrow> [[x]]))"

text \<open>\<^verbatim>\<open>os.path.join(a, b)\<close> with one component to add.\<close>

definition path_join :: "string \<Rightarrow> string \<Rightarrow> string" where
  "path_join a b =
     (if startswith b ''/'' then b
      else if a = [] \<or> endswith a ''/'' then a @ b
      else a @ ''/'' @ b)"

text \<open>
  \<^verbatim>\<open>normpath\<close>: POSIX keeps exactly two leading slashes and folds three or more into
  one. The loop over the components carries the list \<^verbatim>\<open>new_comps\<close>.
\<close>

definition initial_slashes :: "string \<Rightarrow> nat" where
  "initial_slashes path =
     (if startswith path ''/'' then
        (if startswith path ''//'' \<and> \<not> startswith path ''///'' then 2 else 1)
      else 0)"

fun norm_comps :: "nat \<Rightarrow> string list \<Rightarrow> string list \<Rightarrow> string list" where
  "norm_comps sl new_comps [] = new_comps"
| "norm_comps sl new_comps (part # parts) =
     (if part = [] \<or> part = ''.'' then norm_comps sl new_comps parts
      else if part \<noteq> ''..'' \<or> (sl = 0 \<and> new_comps = []) \<or>
              (new_comps \<noteq> [] \<and> last new_comps = ''..'')
           then norm_comps sl (new_comps @ [part]) parts
      else if new_comps \<noteq> [] then norm_comps sl (butlast new_comps) parts
      else norm_comps sl new_comps parts)"

text \<open>The normalised components of a path, together with its count of leading slashes.\<close>

definition resolved_comps :: "string \<Rightarrow> nat \<times> string list" where
  "resolved_comps path =
     (initial_slashes path,
      norm_comps (initial_slashes path) [] (split_on CHR ''/'' path))"

definition render :: "nat \<times> string list \<Rightarrow> string" where
  "render r =
     (let path = join_with ''/'' (snd r);
          path' = (if fst r \<noteq> 0 then replicate (fst r) CHR ''/'' @ path else path)
      in if path' = [] then ''.'' else path')"

definition normpath :: "string \<Rightarrow> string" where
  "normpath path = (if path = [] then ''.'' else render (resolved_comps path))"

text \<open>The string \<^verbatim>\<open>abspath\<close> normalises: the path itself when absolute, else joined to \<open>cwd\<close>.\<close>

definition anchored :: "string \<Rightarrow> string \<Rightarrow> string" where
  "anchored cwd path = (if \<not> startswith path ''/'' then path_join cwd path else path)"

definition abspath :: "string \<Rightarrow> string \<Rightarrow> string" where
  "abspath cwd path = normpath (anchored cwd path)"

datatype security_error = SecurityError string

definition validate_safe_path :: "string \<Rightarrow> string \<Rightarrow> string \<Rightarrow> security_error + string" where
  "validate_safe_path cwd base_dir target_path =
     (let abs_base = abspath cwd base_dir;
          abs_target = abspath cwd (path_join base_dir target_path)
      in if \<not> startswith abs_target abs_base
         then Inl (SecurityError (''Path traversal blocked: '' @ target_path))
         else Inr abs_target)"

text \<open>
  Containment as the specification words it: after normalisation, the components of
  the requested path extend the components of the root (and both have the same
  number of leading slashes).
\<close>

definition spec_contained :: "string \<Rightarrow> string \<Rightarrow> string \<Rightarrow> bool" where
  "spec_contained cwd base_dir target_path =
     (let b = resolved_comps (anchored cwd base_dir);
          t = resolved_comps (anchored cwd (path_join base_dir target_path))
      in fst b = fst t \<and> prefix (snd b) (snd t))"

text \<open>
  A resolution that extends the root's name: after normalisation the requested path
  agrees with the root on every component but the root's last one, and there its
  component begins with the root's last component and goes on, as \<^verbatim>\<open>/a/bc\<close> and
  \<^verbatim>\<open>/a/bc/d\<close> do for the root \<^verbatim>\<open>/a/b\<close>.
\<close>

definition extends_root_name :: "string \<Rightarrow> string \<Rightarrow> string \<Rightarrow> bool" where
  "extends_root_name cwd base_dir target_path =
     (let b = resolved_comps (anchored cwd base_dir);
          t = resolved_comps (anchored cwd (path_join base_dir target_path))
      in fst b = fst t \<and> snd b \<noteq> [] \<and> length (snd b) \<le> length (snd t) \<and>
         take (length (snd b) - 1) (snd t) = butlast (snd b) \<and>
         strict_prefix (last (snd b)) (snd t ! (length (snd b) - 1)))"

section \<open>Agent loop (observable_agent.py)\<close>

subsection \<open>What the loop talks to\<close>

text \<open>
  The completion transport \<^verbatim>\<open>acompletion\<close> is an external collaborator. A call
  either returns a response or raises; a response carries the message text (possibly
  absent), the tool calls the model asks for (none when the attribute is absent or
  empty), the usage and the model name. A tool call is a name and the raw argument
  text. The transport is a function of the step number and the conversation sent.
\<close>

record tool_call_request =
  call_name :: string
  call_arguments :: string

record completion_response =
  resp_content :: "string option"
  resp_tool_calls :: "tool_call_request list"
  resp_usage :: "usage_info option"
  resp_model :: string

datatype transport_outcome = Responds completion_response | Fails py_exception

datatype message =
  SystemMsg string
  | UserMsg string
  | AssistantMsg "string option" "tool_call_request list"
  | ToolMsg string string

type_synonym transport = "int \<Rightarrow> message list \<Rightarrow> transport_outcome"

text \<open>
  Modelled from the spec: the loop detector (module \<^verbatim>\<open>loop_detector\<close>) is not among
  the sources. The spec gives it two checks, each a function of the accumulated state
  that answers with a flag and a message, and a reset. It is a parameter of the agent:
  a state of any type \<open>'d\<close> and the three operations on it.
\<close>

record loop_check =
  is_looping :: bool
  loop_message :: string

record 'd loop_detector =
  detector_reset :: "'d \<Rightarrow> 'd"
  check_tool_call :: "'d \<Rightarrow> string \<Rightarrow> string \<Rightarrow> loop_check \<times> 'd"
  check_output_stagnation :: "'d \<Rightarrow> string option \<Rightarrow> loop_check \<times> 'd"

text \<open>
  Modelled from the spec: the tracer (module \<^verbatim>\<open>tracer\<close>) is not among the sources.
  The spec gives a trace an ordered list of steps, appended by \<^verbatim>\<open>log_step\<close>, and a
  terminal status, output and optional error text set by \<^verbatim>\<open>end_trace\<close>. The one
  trace of a run is modelled; wall-clock durations are left out.
\<close>

record 'a ToolCallRecord =
  tcr_tool_name :: string
  tcr_tool_input :: 'a
  tcr_tool_output :: string

record 'a AgentStep =
  as_step_number :: int
  as_reasoning :: "string option"
  as_tool_calls :: "'a ToolCallRecord list"

record 'a trace =
  trace_agent_name :: string
  trace_query :: string
  trace_model :: string
  trace_steps :: "'a AgentStep list"
  trace_status :: "string option"
  trace_output :: string
  trace_error :: "string option"

definition start_trace :: "string \<Rightarrow> string \<Rightarrow> string \<Rightarrow> 'a trace" where
  "start_trace agent_name q mdl =
     \<lparr>trace_agent_name = agent_name, trace_query = q, trace_model = mdl, trace_steps = [],
      trace_status = None, trace_output = [], trace_error = None\<rparr>"

definition log_step :: "'a AgentStep \<Rightarrow> 'a trace \<Rightarrow> 'a trace" where
  "log_step s t = t\<lparr>trace_steps := trace_steps t @ [s]\<rparr>"

definition end_trace :: "string \<Rightarrow> string \<Rightarrow> string option \<Rightarrow> 'a trace \<Rightarrow> 'a trace" where
  "end_trace out status err t =
     t\<lparr>trace_output := out, trace_status := Some status, trace_error := err\<rparr>"

subsection \<open>The agent\<close>

text \<open>
  The agent's configuration. The registry is the one the loop looks tools up in;
  \<open>parse_json\<close> stands for \<^verbatim>\<open>json.loads\<close> (it raises on malformed text) and
  \<open>to_str\<close> for \<^verbatim>\<open>str\<close> on a tool's value.
\<close>

record ('a, 'v, 'd) ObservableAgent =
  agent_name :: string
  agent_model :: string
  max_steps :: int
  system_prompt :: "string option"
  agent_registry :: "('a, 'v) ToolRegistry"
  loop_detector :: "'d loop_detector"
  parse_json :: "string \<Rightarrow> py_exception + 'a"
  to_str :: "'v \<Rightarrow> string"

text \<open>What one run carries from statement to statement.\<close>

record ('a, 'd) run_state =
  rs_messages :: "message list"
  rs_final_answer :: "string option"
  rs_detector :: 'd
  rs_step :: "'a AgentStep"
  rs_tracer :: "'a trace"
  rs_cost_tracker :: CostTracker

text \<open>Python's truth value of an optional string: \<^verbatim>\<open>None\<close> and the empty string are false.\<close>

definition truthy :: "string option \<Rightarrow> bool" where
  "truthy s = (case s of None \<Rightarrow> False | Some t \<Rightarrow> t \<noteq> [])"

text \<open>
  The three statements at the head of the inner \<^verbatim>\<open>try\<close>: parse the arguments, look
  the tool up with \<^verbatim>\<open>get_tool\<close>, call the tool's own \<^verbatim>\<open>execute\<close>. A name the
  registry does not know gives \<^verbatim>\<open>None\<close>, and the attribute access on it raises.
\<close>

definition none_has_no_execute :: py_exception where
  "none_has_no_execute =
     OtherException (quote @ ''NoneType'' @ quote @ '' object has no attribute '' @
                     quote @ ''execute'' @ quote)"

definition call_tool ::
  "('a, 'v, 'd) ObservableAgent \<Rightarrow> string \<Rightarrow> string \<Rightarrow> py_exception + ('a \<times> 'v)" where
  "call_tool ag tool_nm tool_args =
     (case parse_json ag tool_args of
        Inl e \<Rightarrow> Inl e
      | Inr args_dict \<Rightarrow>
          (case get_tool (agent_registry ag) tool_nm of
             None \<Rightarrow> Inl none_has_no_execute
           | Some tool \<Rightarrow>
               (case tool_execute tool args_dict of
                  Inl e \<Rightarrow> Inl e
                | Inr res \<Rightarrow> Inr (args_dict, res))))"

text \<open>
  The two \<^verbatim>\<open>except\<close> clauses of the inner \<^verbatim>\<open>try\<close>: the text that becomes the answer.
  The second clause is \<^verbatim>\<open>except Exception\<close>.
\<close>

fun failure_text :: "py_exception \<Rightarrow> string" where
  "failure_text (ValidationError m) = ''Tool validation error: '' @ m"
| "failure_text (OtherException m) = ''Tool execution error: '' @ m"
| "failure_text (BaseExceptionOnly m) = ''Tool execution error: '' @ m"

text \<open>
  The \<^verbatim>\<open>for call in tool_calls\<close> loop. Each of its three \<^verbatim>\<open>break\<close>s ends the
  recursion; a call that succeeds appends its record to the step and its observation
  to the conversation and goes on to the next call. An exception that neither
  \<^verbatim>\<open>except\<close> clause catches leaves the loop (\<open>Inl\<close>, with the state at that moment).
\<close>

fun dispatch_calls ::
  "('a, 'v, 'd) ObservableAgent \<Rightarrow> tool_call_request list \<Rightarrow> ('a, 'd) run_state \<Rightarrow>
   (py_exception \<times> ('a, 'd) run_state) + ('a, 'd) run_state" where
  "dispatch_calls ag [] st = Inr st"
| "dispatch_calls ag (call # calls) st =
     (let tool_nm = call_name call;
          tool_args = call_arguments call;
          (loop_result, d) = check_tool_call (loop_detector ag) (rs_detector st) tool_nm tool_args;
          st1 = st\<lparr>rs_detector := d\<rparr>
      in if is_looping loop_result
         then Inr (st1\<lparr>rs_final_answer := Some (loop_message loop_result)\<rparr>)
         else (case call_tool ag tool_nm tool_args of
                 Inl e \<Rightarrow>
                   if is_Exception e then Inr (st1\<lparr>rs_final_answer := Some (failure_text e)\<rparr>)
                   else Inl (e, st1)
               | Inr (args_dict, res) \<Rightarrow>
                   dispatch_calls ag calls
                     (st1\<lparr>rs_step := (rs_step st1)
                            \<lparr>as_tool_calls := as_tool_calls (rs_step st1) @
                               [\<lparr>tcr_tool_name = tool_nm, tcr_tool_input = args_dict,
                                 tcr_tool_output = to_str ag res\<rparr>]\<rparr>,
                          rs_messages := rs_messages st1 @
                            [ToolMsg tool_nm (to_str ag res)]\<rparr>)))"

text \<open>
  One iteration of the \<^verbatim>\<open>while\<close> loop, in three pieces. \<open>begin_step\<close> is what
  follows a response in every case: the cost entry and the fresh step object.
  \<open>text_step\<close> is the branch for a response without tool calls, \<open>tool_step\<close> the
  branch with tool calls, up to and including \<^verbatim>\<open>log_step\<close>.
\<close>

definition begin_step ::
  "int \<Rightarrow> completion_response \<Rightarrow> ('a, 'd) run_state \<Rightarrow> ('a, 'd) run_state" where
  "begin_step n response st =
     st\<lparr>rs_cost_tracker :=
          log_completion n (resp_usage response) (resp_model response) False
            (rs_cost_tracker st),
        rs_step := \<lparr>as_step_number = n, as_reasoning = resp_content response,
                    as_tool_calls = []\<rparr>\<rparr>"

definition text_step ::
  "('a, 'v, 'd) ObservableAgent \<Rightarrow> completion_response \<Rightarrow> ('a, 'd) run_state \<Rightarrow>
   ('a, 'd) run_state" where
  "text_step ag response st1 =
     (let (loop_check, d) =
            check_output_stagnation (loop_detector ag) (rs_detector st1) (resp_content response);
          final = (if is_looping loop_check then Some (loop_message loop_check)
                   else resp_content response);
          st2 = st1\<lparr>rs_final_answer := final, rs_detector := d\<rparr>
      in st2\<lparr>rs_tracer := log_step (rs_step st2) (rs_tracer st2)\<rparr>)"

definition tool_step ::
  "('a, 'v, 'd) ObservableAgent \<Rightarrow> completion_response \<Rightarrow> ('a, 'd) run_state \<Rightarrow>
   (py_exception \<times> ('a, 'd) run_state) + ('a, 'd) run_state" where
  "tool_step ag response st1 =
     (let st2 = st1\<lparr>rs_messages := rs_messages st1 @
                   [AssistantMsg (resp_content response) (resp_tool_calls response)]\<rparr>
      in case dispatch_calls ag (resp_tool_calls response) st2 of
           Inl raised \<Rightarrow> Inl raised
         | Inr st3 \<Rightarrow> Inr (st3\<lparr>rs_tracer := log_step (rs_step st3) (rs_tracer st3)\<rparr>))"

text \<open>
  The \<^verbatim>\<open>while\<close> loop, with the step counter \<open>n\<close> (\<^verbatim>\<open>self._step_number\<close>) as an
  argument. \<open>Inl\<close> is an exception leaving the loop, with the step and the state at
  that moment; \<open>Inr\<close> is the loop ending by its condition or by a \<^verbatim>\<open>break\<close>.
\<close>

function agent_loop ::
  "('a, 'v, 'd) ObservableAgent \<Rightarrow> transport \<Rightarrow> int \<Rightarrow> ('a, 'd) run_state \<Rightarrow>
   (py_exception \<times> int \<times> ('a, 'd) run_state) + (int \<times> ('a, 'd) run_state)" where
  "agent_loop ag tr n st =
     (if n < max_steps ag then
        (case tr (n + 1) (rs_messages st) of
           Fails e \<Rightarrow> Inl (e, n + 1, st)
         | Responds response \<Rightarrow>
             (let st1 = begin_step (n + 1) response st
              in if resp_tool_calls response = [] then Inr (n + 1, text_step ag response st1)
                 else
                   (case tool_step ag response st1 of
                      Inl (e, st') \<Rightarrow> Inl (e, n + 1, st')
                    | Inr st4 \<Rightarrow>
                        if truthy (rs_final_answer st4) then Inr (n + 1, st4)
                        else agent_loop ag tr (n + 1) st4)))
      else Inr (n, st))"
  by pat_completeness auto
termination
  by (relation "measure (\<lambda>(ag, tr, n, st). nat (max_steps ag - n))") auto

declare agent_loop.simps [simp del]

text \<open>
  \<^verbatim>\<open>run\<close>: the statements before the \<^verbatim>\<open>try\<close>, the loop, and then either the normal
  ending, or the handler \<^verbatim>\<open>except Exception\<close>, or, for an exception the handler does
  not catch, the exception leaving \<^verbatim>\<open>run\<close> (\<open>Inl\<close>) with trace and cost query as they
  stand. It returns the outcome, the step counter and the state the run leaves behind.
  The tracer, cost tracker and detector the agent holds when \<^verbatim>\<open>run\<close> is called are
  arguments.
\<close>

record run_result =
  answer :: string

definition initial_state ::
  "('a, 'v, 'd) ObservableAgent \<Rightarrow> CostTracker \<Rightarrow> 'd \<Rightarrow> string \<Rightarrow> ('a, 'd) run_state" where
  "initial_state ag costs d user_query =
     \<lparr>rs_messages =
        (if truthy (system_prompt ag) then [SystemMsg (the (system_prompt ag))] else []) @
        [UserMsg user_query],
      rs_final_answer = None,
      rs_detector = detector_reset (loop_detector ag) d,
      rs_step = \<lparr>as_step_number = 0, as_reasoning = None, as_tool_calls = []\<rparr>,
      rs_tracer = start_trace (agent_name ag) user_query (agent_model ag),
      rs_cost_tracker = start_query user_query costs\<rparr>"

definition max_steps_message :: string where
  "max_steps_message = ''Max steps reached without final answer.''"

definition run ::
  "('a, 'v, 'd) ObservableAgent \<Rightarrow> transport \<Rightarrow> CostTracker \<Rightarrow> 'd \<Rightarrow> string \<Rightarrow>
   (py_exception + run_result) \<times> int \<times> ('a, 'd) run_state" where
  "run ag tr costs d user_query =
     (case agent_loop ag tr 0 (initial_state ag costs d user_query) of
        Inr (n, st) \<Rightarrow>
          (let final = (if \<not> truthy (rs_final_answer st) then max_steps_message
                        else the (rs_final_answer st))
           in (Inr \<lparr>answer = final\<rparr>, n,
               st\<lparr>rs_final_answer := Some final,
                  rs_tracer := end_trace final ''completed'' None (rs_tracer st),
                  rs_cost_tracker := end_query (rs_cost_tracker st)\<rparr>))
      | Inl (e, n, st) \<Rightarrow>
          if is_Exception e
          then (Inr \<lparr>answer = ''Agent failed: '' @ exn_text e\<rparr>, n,
                st\<lparr>rs_tracer := end_trace [] ''error'' (Some (exn_text e)) (rs_tracer st),
                   rs_cost_tracker := end_query (rs_cost_tracker st)\<rparr>)
          else (Inl e, n, st))"

subsection \<open>Concrete agents and transports\<close>

text \<open>
  For concrete runs: a detector that never flags anything, an agent over the example
  registry with three steps allowed, whose argument parser rejects the text \<^verbatim>\<open>{\<close>,
  and four scripted transports.
\<close>

definition quiet_check :: loop_check where
  "quiet_check = \<lparr>is_looping = False, loop_message = []\<rparr>"

definition quiet_detector :: "unit loop_detector" where
  "quiet_detector =
     \<lparr>detector_reset = (\<lambda>d. d),
      check_tool_call = (\<lambda>d n a. (quiet_check, d)),
      check_output_stagnation = (\<lambda>d s. (quiet_check, d))\<rparr>"

definition example_agent :: "(string, string list, unit) ObservableAgent" where
  "example_agent =
     \<lparr>agent_name = ''ObservableAgent'', agent_model = ''gpt-4o'', max_steps = 3,
      system_prompt = None, agent_registry = example_registry,
      loop_detector = quiet_detector,
      parse_json = (\<lambda>s. if s = ''{'' then Inl (OtherException ''Expecting property name'')
                          else Inr s),
      to_str = repr_list\<rparr>"

definition asks :: "string \<Rightarrow> string \<Rightarrow> completion_response" where
  "asks n a =
     \<lparr>resp_content = None, resp_tool_calls = [\<lparr>call_name = n, call_arguments = a\<rparr>],
      resp_usage = None, resp_model = ''gpt-4o''\<rparr>"

definition says :: "string \<Rightarrow> completion_response" where
  "says t =
     \<lparr>resp_content = Some t, resp_tool_calls = [], resp_usage = None, resp_model = ''gpt-4o''\<rparr>"

definition always_lists :: transport where
  "always_lists n msgs = Responds (asks ''list_files'' ''.'')"

definition always_unknown :: transport where
  "always_unknown n msgs = Responds (asks ''nope'' ''.'')"

definition malformed_then_text :: transport where
  "malformed_then_text n msgs =
     (if n = 1 then Responds (asks ''list_files'' ''{'') else Responds (says ''done''))"

definition fails_on_step_2 :: transport where
  "fails_on_step_2 n msgs =
     (if n = 2 then Fails (OtherException ''connection reset'')
      else Responds (asks ''list_files'' ''.''))"

text \<open>
  The hypothesis of the max-steps property: at every step the transport answers with
  at least one tool call, and each call it asks for is never flagged by the detector
  and completes (its arguments parse, its tool is registered and returns a value).
\<close>

definition calls_complete ::
  "('a, 'v, 'd) ObservableAgent \<Rightarrow> tool_call_request list \<Rightarrow> bool" where
  "calls_complete ag calls \<longleftrightarrow>
     (\<forall>c\<in>set calls.
        (\<forall>d. \<not> is_looping
                (fst (check_tool_call (loop_detector ag) d (call_name c) (call_arguments c)))) \<and>
        (\<exists>r. call_tool ag (call_name c) (call_arguments c) = Inr r))"

definition always_completing_calls :: "('a, 'v, 'd) ObservableAgent \<Rightarrow> transport \<Rightarrow> bool" where
  "always_completing_calls ag tr \<longleftrightarrow>
     (\<forall>n msgs. \<exists>response.
        tr n msgs = Responds response \<and> resp_tool_calls response \<noteq> [] \<and>
        calls_complete ag (resp_tool_calls response))"

section \<open>Properties of the rate limiter\<close>

lemma is_allowed_cpm: "calls_per_minute (snd (is_allowed t l)) = calls_per_minute l"
  by (simp add: is_allowed_def Let_def)

lemma is_allowed_last: "last_check (snd (is_allowed t l)) = t"
  by (simp add: is_allowed_def Let_def)





lemma is_allowed_within:
  assumes "within_capacity l" "last_check l \<le> t" "0 \<le> calls_per_minute l"
  shows "within_capacity (snd (is_allowed t l))"
proof -
  have "0 \<le> (t - last_check l) * (real_of_int (calls_per_minute l) / 60)"
    using assms by simp
  then show ?thesis
    using assms by (auto simp: is_allowed_def Let_def within_capacity_def)
qed

lemma calls_after_within:
  "within_capacity l \<Longrightarrow> 0 \<le> calls_per_minute l \<Longrightarrow> \<forall>d\<in>set ds. 0 \<le> d \<Longrightarrow>
   \<forall>r\<in>set (calls_after ds l).
     within_capacity (snd r) \<and> calls_per_minute (snd r) = calls_per_minute l"
proof (induction ds arbitrary: l)
  case Nil
  then show ?case by simp
next
  case (Cons d ds)
  let ?r = "is_allowed (last_check l + d) l"
  have w: "within_capacity (snd ?r)"
    using Cons.prems by (intro is_allowed_within) auto
  have c: "calls_per_minute (snd ?r) = calls_per_minute l"
    by (rule is_allowed_cpm)
  have "\<forall>r\<in>set (calls_after ds (snd ?r)).
          within_capacity (snd r) \<and> calls_per_minute (snd r) = calls_per_minute (snd ?r)"
    using Cons.prems w c by (intro Cons.IH) auto
  then show ?case using w c by (simp add: Let_def)
qed

text \<open>
  Claim C8. For a limiter built with a capacity \<open>C \<ge> 0\<close> and any sequence of calls
  separated by non-negative elapsed times, the token count after every call is at
  least 0 and at most \<open>C\<close>.
\<close>

theorem allowance_bounds:
  assumes "0 \<le> C" "\<forall>d\<in>set ds. 0 \<le> d"
  shows "\<forall>r\<in>set (calls_after ds (new_limiter C t0)).
           0 \<le> allowance (snd r) \<and> allowance (snd r) \<le> real_of_int C"
proof -
  have "within_capacity (new_limiter C t0)" "0 \<le> calls_per_minute (new_limiter C t0)"
    using assms(1) by (simp_all add: within_capacity_def new_limiter_def)
  from calls_after_within [OF this assms(2)]
  have "\<forall>r\<in>set (calls_after ds (new_limiter C t0)).
          within_capacity (snd r) \<and> calls_per_minute (snd r) = C"
    by (simp add: new_limiter_def)
  then show ?thesis by (auto simp: within_capacity_def)
qed

theorem allowance_bounds_witness:
  "(0::int) \<le> 2 \<and> list_all (\<lambda>d. 0 \<le> d) [0, 45, 0, 0, 7 :: real] \<and>
   list_all (\<lambda>r. 0 \<le> allowance (snd r) \<and> allowance (snd r) \<le> real_of_int 2)
     (calls_after [0, 45, 0, 0, 7] (new_limiter 2 100))"
  using allowance_bounds [of 2 "[0, 45, 0, 0, 7]" 100] by (simp add: list_all_iff)

section \<open>Properties of the cost tracker\<close>

text \<open>
  Claim C10. \<^verbatim>\<open>start_query\<close> on any tracker, with or without an open query, leaves
  the list of completed queries as it was and makes a fresh, empty query the open one;
  whatever was open before is dropped, so closing the tracker next appends only the
  fresh query.
\<close>

theorem start_query_replaces:
  "queries (start_query q t) = queries t \<and>
   current_query (start_query q t) = Some (new_QueryCost q) \<and>
   queries (end_query (start_query q t)) = queries t @ [new_QueryCost q]"
  by (simp add: start_query_def end_query_def)

theorem start_query_replaces_witness:
  "queries (start_query ''second''
      \<lparr>queries = [], current_query = Some (new_QueryCost ''first'')\<rparr>) = [] \<and>
   queries (end_query (start_query ''second''
      \<lparr>queries = [], current_query = Some (new_QueryCost ''first'')\<rparr>)) =
     [new_QueryCost ''second'']"
  using start_query_replaces
    [of "''second''" "\<lparr>queries = [], current_query = Some (new_QueryCost ''first'')\<rparr>"]
  by simp

section \<open>Properties of the tool registry\<close>

lemma example_get: "get_tool example_registry ''list_files'' = Some list_files_tool"
  by (simp add: example_registry_def register_def get_tool_def list_files_tool_def
      shutdown_tool_def new_ToolRegistry_def)

lemma example_get_shutdown: "get_tool example_registry ''shutdown'' = Some shutdown_tool"
  by (simp add: example_registry_def register_def get_tool_def list_files_tool_def
      shutdown_tool_def new_ToolRegistry_def)

lemma example_limiter:
  "limiters example_registry ''list_files'' = Some (new_limiter 1 0)"
  by (simp add: example_registry_def register_def list_files_tool_def shutdown_tool_def
      new_ToolRegistry_def)

lemma example_limiter_shutdown:
  "limiters example_registry ''shutdown'' = Some (new_limiter 1 0)"
  by (simp add: example_registry_def register_def list_files_tool_def shutdown_tool_def
      new_ToolRegistry_def)

lemma example_unknown: "get_tool example_registry ''nope'' = None"
  by (simp add: example_registry_def register_def get_tool_def list_files_tool_def
      shutdown_tool_def new_ToolRegistry_def)

lemma example_first_allowed: "\<not> limiter_denies 0 example_registry ''list_files''"
  by (simp add: limiter_denies_def example_limiter is_allowed_def new_limiter_def Let_def)

lemma example_after_first:
  "get_tool (snd (execute 0 example_registry ''list_files'' ''x'')) ''list_files'' =
     Some list_files_tool \<and>
   limiter_denies 0 (snd (execute 0 example_registry ''list_files'' ''x'')) ''list_files''"
  using example_get
  by (simp add: execute_def example_limiter is_allowed_def new_limiter_def Let_def
      limiter_denies_def get_tool_def)

lemma printable_not_special:
  "printable c \<Longrightarrow> c \<noteq> CHR 0x09 \<and> c \<noteq> CHR 0x0A \<and> c \<noteq> CHR 0x0D"
  by (auto simp: printable_def)

lemma repr_char_plain:
  "printable c \<Longrightarrow> c \<noteq> CHR 0x27 \<Longrightarrow> c \<noteq> CHR 0x5C \<Longrightarrow> repr_char (CHR 0x27) c = [c]"
  using printable_not_special [of c] by (simp add: repr_char_def)

lemma concat_repr_plain: "plain s \<Longrightarrow> concat (map (repr_char (CHR 0x27)) s) = s"
  by (induction s) (simp_all add: plain_def repr_char_plain)

lemma repr_str_plain: "plain s \<Longrightarrow> repr_str s = [CHR 0x27] @ s @ [CHR 0x27]"
proof -
  assume p: "plain s"
  then have "CHR 0x27 \<notin> set s"
    by (auto simp: plain_def list_all_iff)
  then show ?thesis
    using p by (simp add: repr_str_def Let_def concat_repr_plain)
qed

lemma repr_list_plain:
  "list_all plain xs \<Longrightarrow>
   repr_list xs = ''['' @ join_with '', '' (map (\<lambda>p. [CHR 0x27] @ p @ [CHR 0x27]) xs) @ '']''"
proof -
  assume "list_all plain xs"
  then have m: "map repr_str xs = map (\<lambda>p. [CHR 0x27] @ p @ [CHR 0x27]) xs"
    by (induction xs) (simp_all add: repr_str_plain)
  show ?thesis
    unfolding repr_list_def m by (rule refl)
qed

text \<open>
  Claim C5. For a registered tool, \<^verbatim>\<open>execute_secure\<close> checks permissions first. When
  the caller's list lacks one of the required scopes, the outcome is a failure dict
  (\<^verbatim>\<open>success\<close> false, no result) whose error text is
  \<^verbatim>\<open>Access Denied. Missing permissions: \<close> followed by Python's rendering of the list
  of exactly the required scopes the caller lacks, in the tool's order (for plain
  scope strings: each between single quotes, separated by a comma and a space, in
  brackets); the registry, hence the tool's limiter and its token count, is returned
  as it was. When the caller holds every required scope, the call is \<^verbatim>\<open>execute\<close>
  itself.
\<close>

theorem execute_secure_permissions:
  assumes "get_tool reg n = Some tool"
  shows "(set (tool_permissions tool) \<subseteq> set granted \<longrightarrow>
            execute_secure now reg n arguments granted = execute now reg n arguments) \<and>
         (\<not> set (tool_permissions tool) \<subseteq> set granted \<longrightarrow>
            (let missing = filter (\<lambda>p. p \<notin> set granted) (tool_permissions tool)
             in missing \<noteq> [] \<and>
                set missing = set (tool_permissions tool) - set granted \<and>
                fst (execute_secure now reg n arguments granted) =
                  Inr \<lparr>success = False, result = None,
                       error = Some (''Access Denied. Missing permissions: '' @
                                     repr_list missing)\<rparr> \<and>
                (list_all plain missing \<longrightarrow>
                   repr_list missing =
                     ''['' @
                     join_with '', '' (map (\<lambda>p. [CHR 0x27] @ p @ [CHR 0x27]) missing) @
                     '']'') \<and>
                snd (execute_secure now reg n arguments granted) = reg \<and>
                limiters (snd (execute_secure now reg n arguments granted)) n =
                  limiters reg n))"
proof (intro conjI impI)
  assume "set (tool_permissions tool) \<subseteq> set granted"
  then have "filter (\<lambda>p. p \<notin> set granted) (tool_permissions tool) = []"
    by (auto simp: filter_empty_conv)
  then show "execute_secure now reg n arguments granted = execute now reg n arguments"
    using assms by (simp add: execute_secure_def)
next
  assume ns: "\<not> set (tool_permissions tool) \<subseteq> set granted"
  let ?missing = "filter (\<lambda>p. p \<notin> set granted) (tool_permissions tool)"
  have ne: "?missing \<noteq> []"
    using ns by (auto simp: filter_empty_conv)
  have s: "set ?missing = set (tool_permissions tool) - set granted"
    by auto
  have e: "execute_secure now reg n arguments granted =
             (Inr (access_denied_error ?missing), reg)"
    using assms ne by (simp add: execute_secure_def Let_def)
  have p: "list_all plain ?missing \<longrightarrow>
           repr_list ?missing =
             ''['' @ join_with '', '' (map (\<lambda>p. [CHR 0x27] @ p @ [CHR 0x27]) ?missing) @ '']''"
    using repr_list_plain [of ?missing] by blast
  show "let missing = ?missing
        in missing \<noteq> [] \<and>
           set missing = set (tool_permissions tool) - set granted \<and>
           fst (execute_secure now reg n arguments granted) =
             Inr \<lparr>success = False, result = None,
                  error = Some (''Access Denied. Missing permissions: '' @
                                repr_list missing)\<rparr> \<and>
           (list_all plain missing \<longrightarrow>
              repr_list missing =
                ''['' @
                join_with '', '' (map (\<lambda>p. [CHR 0x27] @ p @ [CHR 0x27]) missing) @
                '']'') \<and>
           snd (execute_secure now reg n arguments granted) = reg \<and>
           limiters (snd (execute_secure now reg n arguments granted)) n = limiters reg n"
    unfolding Let_def using ne s e p by (simp add: access_denied_error_def)
qed

lemma example_scope_plain: "list_all plain [''filesystem:read'']"
  by (simp add: plain_def printable_def)

theorem execute_secure_permissions_witness:
  "get_tool example_registry ''list_files'' = Some list_files_tool \<and>
   execute_secure 5 example_registry ''list_files'' ''.'' [] =
     (Inr \<lparr>success = False, result = None,
           error = Some (''Access Denied. Missing permissions: ['' @ [CHR 0x27] @
                         ''filesystem:read'' @ [CHR 0x27] @ '']'')\<rparr>,
      example_registry) \<and>
   execute_secure 5 example_registry ''list_files'' ''.'' [''filesystem:read''] =
     execute 5 example_registry ''list_files'' ''.''"
  using execute_secure_permissions [OF example_get, of "[]" 5 "''.''"]
    execute_secure_permissions [OF example_get, of "[''filesystem:read'']" 5 "''.''"]
    example_get example_scope_plain
  by (simp add: list_files_tool_def prod_eq_iff Let_def)

lemma execute_fst:
  "fst (execute now reg n arguments) =
     (case get_tool reg n of
        None \<Rightarrow> Inr (not_found_error n)
      | Some tool \<Rightarrow>
          if limiter_denies now reg n then Inr (rate_limit_error n)
          else run_tool tool arguments)"
  by (simp add: execute_def limiter_denies_def Let_def split: option.splits prod.splits)

lemma run_tool_returns:
  assumes "\<forall>e. tool_execute tool arguments = Inl e \<longrightarrow> is_Exception e"
  shows "\<exists>r. run_tool tool arguments = Inr r \<and> consistent_result r"
  using assms by (cases "tool_execute tool arguments") (auto simp: run_tool_def consistent_result_def)

text \<open>
  Claim C6, for exceptions derived from \<^verbatim>\<open>Exception\<close>. \<^verbatim>\<open>execute\<close> answers with a
  result dict: \<^verbatim>\<open>success\<close> false, no result and the text \<^verbatim>\<open>Tool '<name>' not found.\<close>
  for an unregistered name; \<^verbatim>\<open>success\<close> false, no result and the text
  \<^verbatim>\<open>Rate limit exceeded for tool '<name>'.\<close> when the tool's limiter refuses;
  \<^verbatim>\<open>success\<close> false, no result and the exception's text when the tool raises an
  exception derived from \<^verbatim>\<open>Exception\<close>; \<^verbatim>\<open>success\<close> true, the tool's value and no
  error otherwise. So whenever the tool, called with these arguments, raises nothing
  outside the \<^verbatim>\<open>Exception\<close> hierarchy, \<^verbatim>\<open>execute\<close> returns a coherent dict and
  nothing propagates. An exception outside that hierarchy raised by the tool leaves
  \<^verbatim>\<open>execute\<close>.
\<close>

theorem execute_error_boundary:
  "(get_tool reg n = None \<longrightarrow>
      fst (execute now reg n arguments) =
        Inr \<lparr>success = False, result = None,
             error = Some (''Tool '' @ [CHR 0x27] @ n @ [CHR 0x27] @ '' not found.'')\<rparr>) \<and>
   (get_tool reg n \<noteq> None \<and> limiter_denies now reg n \<longrightarrow>
      fst (execute now reg n arguments) =
        Inr \<lparr>success = False, result = None,
             error = Some (''Rate limit exceeded for tool '' @ [CHR 0x27] @ n @
                           [CHR 0x27] @ ''.'')\<rparr>) \<and>
   (\<forall>tool e. get_tool reg n = Some tool \<and> \<not> limiter_denies now reg n \<and>
        tool_execute tool arguments = Inl e \<and> is_Exception e \<longrightarrow>
      fst (execute now reg n arguments) =
        Inr \<lparr>success = False, result = None, error = Some (exn_text e)\<rparr>) \<and>
   (\<forall>tool v. get_tool reg n = Some tool \<and> \<not> limiter_denies now reg n \<and>
        tool_execute tool arguments = Inr v \<longrightarrow>
      fst (execute now reg n arguments) =
        Inr \<lparr>success = True, result = Some v, error = None\<rparr>) \<and>
   ((\<forall>tool e. get_tool reg n = Some tool \<and> tool_execute tool arguments = Inl e \<longrightarrow>
        is_Exception e) \<longrightarrow>
      (\<exists>r. fst (execute now reg n arguments) = Inr r \<and> consistent_result r)) \<and>
   (\<forall>tool e. get_tool reg n = Some tool \<and> \<not> limiter_denies now reg n \<and>
        tool_execute tool arguments = Inl e \<and> \<not> is_Exception e \<longrightarrow>
      fst (execute now reg n arguments) = Inl e)"
proof (intro conjI)
  show "(\<forall>tool e. get_tool reg n = Some tool \<and> tool_execute tool arguments = Inl e \<longrightarrow>
           is_Exception e) \<longrightarrow>
        (\<exists>r. fst (execute now reg n arguments) = Inr r \<and> consistent_result r)"
  proof
    assume ok: "\<forall>tool e. get_tool reg n = Some tool \<and> tool_execute tool arguments = Inl e \<longrightarrow>
                  is_Exception e"
    show "\<exists>r. fst (execute now reg n arguments) = Inr r \<and> consistent_result r"
    proof (cases "get_tool reg n")
      case None
      then show ?thesis
        by (simp add: execute_fst consistent_result_def not_found_error_def)
    next
      case (Some tool)
      show ?thesis
      proof (cases "limiter_denies now reg n")
        case True
        with Some show ?thesis
          by (simp add: execute_fst consistent_result_def rate_limit_error_def)
      next
        case False
        have "\<forall>e. tool_execute tool arguments = Inl e \<longrightarrow> is_Exception e"
          using ok Some by simp
        from run_tool_returns [OF this] show ?thesis
          using Some False by (simp add: execute_fst)
      qed
    qed
  qed
qed (auto simp: execute_fst run_tool_def not_found_error_def rate_limit_error_def quote_def)

theorem execute_error_boundary_witness:
  "fst (execute 0 example_registry ''nope'' ''.'') =
     Inr \<lparr>success = False, result = None,
          error = Some (''Tool '' @ [CHR 0x27] @ ''nope'' @ [CHR 0x27] @ '' not found.'')\<rparr> \<and>
   fst (execute 0 example_registry ''list_files'' ''x'') =
     Inr \<lparr>success = False, result = None, error = Some ''No such directory''\<rparr> \<and>
   fst (execute 0 example_registry ''list_files'' ''.'') =
     Inr \<lparr>success = True, result = Some [''a.txt''], error = None\<rparr> \<and>
   fst (execute 0 (snd (execute 0 example_registry ''list_files'' ''x'')) ''list_files'' ''x'') =
     Inr \<lparr>success = False, result = None,
          error = Some (''Rate limit exceeded for tool '' @ [CHR 0x27] @ ''list_files'' @
                        [CHR 0x27] @ ''.'')\<rparr>"
  using execute_error_boundary [of example_registry "''nope''" 0 "''.''"]
    execute_error_boundary [of example_registry "''list_files''" 0 "''x''"]
    execute_error_boundary [of example_registry "''list_files''" 0 "''.''"]
    execute_error_boundary
      [of "snd (execute 0 example_registry ''list_files'' ''x'')" "''list_files''" 0 "''x''"]
    example_unknown example_get example_first_allowed example_after_first
  by (simp add: list_files_tool_def)

theorem execute_error_boundary_counterexample:
  "get_tool example_registry ''shutdown'' = Some shutdown_tool \<and>
   tool_execute shutdown_tool ''.'' = Inl (BaseExceptionOnly ''shutting down'') \<and>
   fst (execute 0 example_registry ''shutdown'' ''.'') = Inl (BaseExceptionOnly ''shutting down'')"
  by (simp add: execute_fst example_get_shutdown limiter_denies_def example_limiter_shutdown
      is_allowed_def new_limiter_def Let_def run_tool_def shutdown_tool_def)

section \<open>Properties of the path sanitizer\<close>














































text \<open>
  The resolutions left out of the first clause are accepted although they lie outside
  the root, which the function's own documentation rules out (\<^verbatim>\<open>Raises SecurityError:
  If the path escapes base_dir\<close>): the test is \<^verbatim>\<open>str.startswith\<close> on the two path
  strings, with no separator after the root.
\<close>

lemma sibling_name_accepted:
  "extends_root_name ''/home/u'' ''/a/b'' ''../bc'' \<and>
   \<not> spec_contained ''/home/u'' ''/a/b'' ''../bc'' \<and>
   validate_safe_path ''/home/u'' ''/a/b'' ''../bc'' = Inr ''/a/bc'' \<and>
   validate_safe_path ''/home/u/work'' ''.'' ''../work2'' = Inr ''/home/u/work2''"
  by code_simp

end
